theory Spec2Isabelle
  imports Complex_Main "HOL-Library.Log_Nat"
begin

section \<open>Numbers\<close>

text \<open>
  A JavaScript Number is an IEEE 754 double. Here a Number is the rational it holds, and
  \<open>double x\<close> is the double nearest to the rational \<open>x\<close> (53 significant bits, ties to
  the even significand, gradual underflow below \<open>2 powi (- 1022)\<close>): the Number a decimal
  literal such as 1.1 denotes is \<open>double (11 / 10)\<close>, and the sum the code computes from
  two Numbers \<open>x\<close> and \<open>y\<close> is \<open>double (x + y)\<close>. Overflow to Infinity (beyond
  \<open>2 ^ 1024\<close>) and NaN are outside the model.
\<close>

definition floor_log2 :: "rat \<Rightarrow> int" where
  "floor_log2 x = (if 1 \<le> x then bitlen \<lfloor>x\<rfloor> - 1 else - bitlen (\<lceil>1 / x\<rceil> - 1))"

definition round_half_even :: "rat \<Rightarrow> int" where
  "round_half_even q =
     (let f = \<lfloor>q\<rfloor>; r = q - of_int f
      in if r < 1 / 2 then f
         else if 1 / 2 < r then f + 1
         else if even f then f else f + 1)"

definition double :: "rat \<Rightarrow> rat" where
  "double x =
     (if x = 0 then 0
      else (let e = max (floor_log2 \<bar>x\<bar>) (- 1022);
                u = 2 powi (e - 52)
            in of_int (round_half_even (x / u)) * u))"

text \<open>The literal \<open>0.01\<close> of the schemas.\<close>

definition cent :: rat where
  "cent = double (1 / 100)"

section \<open>Data model\<close>

text \<open>
  The documents of the three Mongoose models the bidding code touches (Auction, Bid and
  Item), as records. A price is a Number, a Date is its millisecond count, an ObjectId is
  the string the controllers compare (\<open>auction.seller.toString() === req.user.id\<close>). The
  amount of a bid request is a Number. Fields that neither the bid controller nor the
  cancel operation reads or writes and that carry no validator (watchers, the approval
  fields, the images and counters of an item) are left out.
\<close>

type_synonym objectId = string
type_synonym date = int

datatype auction_status = Draft | Pending | Active | Ended | Cancelled | Sold

datatype item_status = Available | In_auction | Item_sold

datatype role = User | Seller | Admin

record Auction =
  item :: objectId
  seller :: objectId
  startPrice :: rat
  currentPrice :: rat
  reservePrice :: rat
  minIncrement :: rat
  startTime :: date
  endTime :: date
  status :: auction_status
  totalBids :: nat
  winner :: "objectId option"
  finalPrice :: "rat option"
  updatedAt :: date

record Bid =
  auction :: objectId
  bidder :: objectId
  amount :: rat
  createdAt :: date

record Item =
  title :: string
  itemSeller :: objectId
  itemStatus :: item_status

text \<open>\<open>req.user\<close>, as the \<open>protect\<close> middleware attaches it.\<close>

record user =
  user_id :: objectId
  user_role :: role

text \<open>
  The three collections. Bid documents are only ever created, so the collection is the
  list of the documents in creation order.
\<close>

record db =
  auctions :: "objectId \<rightharpoonup> Auction"
  items :: "objectId \<rightharpoonup> Item"
  bids :: "Bid list"

text \<open>
  Every store call is awaited inside a \<open>try\<close> whose \<open>catch\<close> answers 500. A call raises
  on its own grounds (a malformed id, a document that fails its schema), which are
  modelled below, or because the store fails under it (a lost connection), which the
  controller does not decide: that is an input, saying for each store call whether the
  driver raises there.
\<close>

datatype store_call = Auction_findById | Bid_create | Auction_save | Item_findByIdAndUpdate

type_synonym faults = "store_call \<Rightarrow> bool"

section \<open>Responses\<close>

text \<open>
  The text of a message: a string literal of the source; the template literal
  \<open>`Bid must be at least ${this.minIncrement} higher`\<close> with its number kept as a number;
  the message of a validation error, kept as the model name and, for each failing path,
  the message the schema declares for it (\<open>None\<close> where the schema declares none and the
  driver's default text is sent); the message of a cast error, kept as the value that
  does not cast; the message of an exception of the driver, whose text the source does
  not fix.
\<close>

datatype msg =
  Str string
  | Tmpl string rat string
  | ValidationError string "(string \<times> string option) list"
  | CastError string
  | DriverError store_call

datatype json = JMsg msg | JNum rat | JNat nat | JBool bool | JBid Bid

text \<open>\<open>res.status(code).json(body)\<close>: the body is the object literal, field by field.\<close>

datatype response = Response (code: nat) (body: "(string \<times> json) list")

section \<open>The Auction model\<close>

definition isActive :: "Auction \<Rightarrow> date \<Rightarrow> bool" where
  "isActive a now \<longleftrightarrow> status a = Active \<and> now \<ge> startTime a \<and> now \<le> endTime a"

definition hasEnded :: "Auction \<Rightarrow> date \<Rightarrow> bool" where
  "hasEnded a now \<longleftrightarrow> now > endTime a"

text \<open>
  \<open>auctionSchema.methods.placeBid\<close>: each \<open>throw new Error(m)\<close> is \<open>Inl m\<close>; the
  document mutated in memory is returned on the right. The sum
  \<open>this.currentPrice + this.minIncrement\<close> is the sum of two Numbers.
\<close>

definition Auction_placeBid :: "Auction \<Rightarrow> rat \<Rightarrow> date \<Rightarrow> msg + Auction" where
  "Auction_placeBid a amt now =
     (if \<not> isActive a now then Inl (Str ''Auction is not active'')
      else if amt \<le> currentPrice a then Inl (Str ''Bid must be higher than current price'')
      else if amt < double (currentPrice a + minIncrement a)
        then Inl (Tmpl ''Bid must be at least '' (minIncrement a) '' higher'')
      else Inr (a\<lparr>currentPrice := amt, totalBids := totalBids a + 1\<rparr>))"

text \<open>
  The validators of the Auction schema, in the order of the schema: the paths that fail
  at time \<open>now\<close>. \<open>startTime\<close> must be later than \<open>new Date()\<close>, \<open>endTime\<close> later than
  \<open>this.startTime\<close>.
\<close>

definition Auction_validate :: "Auction \<Rightarrow> date \<Rightarrow> (string \<times> string option) list" where
  "Auction_validate a now =
     (if startPrice a < cent
        then [(''startPrice'', Some ''Start price must be greater than 0'')] else [])
     @ (if reservePrice a < 0 then [(''reservePrice'', None)] else [])
     @ (if minIncrement a < cent
          then [(''minIncrement'', Some ''Increment must be greater than 0'')] else [])
     @ (if \<not> startTime a > now
          then [(''startTime'', Some ''Start time must be in the future'')] else [])
     @ (if \<not> endTime a > startTime a
          then [(''endTime'', Some ''End time must be after start time'')] else [])"

section \<open>Store calls\<close>

text \<open>
  \<open>Auction.findById(id)\<close>: an id that is no ObjectId does not cast and the query raises;
  no document under the id is \<open>null\<close>.
\<close>

definition Auction_findById_call ::
  "(string \<Rightarrow> bool) \<Rightarrow> faults \<Rightarrow> db \<Rightarrow> string \<Rightarrow> msg + Auction option" where
  "Auction_findById_call isValid throws d aid =
     (if throws Auction_findById then Inl (DriverError Auction_findById)
      else if \<not> isValid aid then Inl (CastError aid)
      else Inr (auctions d aid))"

text \<open>
  \<open>Bid.create\<close> validates the new document against the Bid schema
  (\<open>min: [0.01, 'Bid amount must be greater than 0']\<close>) and appends it.
\<close>

definition Bid_create_call ::
  "faults \<Rightarrow> date \<Rightarrow> db \<Rightarrow> objectId \<Rightarrow> objectId \<Rightarrow> rat \<Rightarrow> msg + (Bid \<times> db)" where
  "Bid_create_call throws now d aid uid amt =
     (if throws Bid_create then Inl (DriverError Bid_create)
      else if amt < cent
        then Inl (ValidationError ''Bid'' [(''amount'', Some ''Bid amount must be greater than 0'')])
      else (let b = \<lparr>auction = aid, bidder = uid, amount = amt, createdAt = now\<rparr>
            in Inr (b, d\<lparr>bids := bids d @ [b]\<rparr>)))"

text \<open>
  \<open>auction.save()\<close>: the document is validated against the Auction schema and the save
  raises when a path fails; otherwise the pre-save hook stamps \<open>updatedAt\<close> and the
  document replaces the stored one.
\<close>

definition Auction_save_call :: "faults \<Rightarrow> date \<Rightarrow> db \<Rightarrow> objectId \<Rightarrow> Auction \<Rightarrow> msg + db" where
  "Auction_save_call throws now d aid a =
     (if throws Auction_save then Inl (DriverError Auction_save)
      else if Auction_validate a now \<noteq> []
        then Inl (ValidationError ''Auction'' (Auction_validate a now))
      else Inr (d\<lparr>auctions := (auctions d)(aid \<mapsto> a\<lparr>updatedAt := now\<rparr>)\<rparr>))"

text \<open>\<open>Item.findByIdAndUpdate(id, {status: s})\<close>: no document under the id is no error.\<close>

definition Item_findByIdAndUpdate_call :: "faults \<Rightarrow> db \<Rightarrow> objectId \<Rightarrow> item_status \<Rightarrow> msg + db" where
  "Item_findByIdAndUpdate_call throws d iid s =
     (if throws Item_findByIdAndUpdate then Inl (DriverError Item_findByIdAndUpdate)
      else (case items d iid of
              None \<Rightarrow> Inr d
            | Some it \<Rightarrow> Inr (d\<lparr>items := (items d)(iid \<mapsto> it\<lparr>itemStatus := s\<rparr>)\<rparr>)))"

section \<open>The bid controller\<close>

text \<open>
  \<open>exports.placeBid\<close>. \<open>isValid\<close> is \<open>mongoose.Types.ObjectId.isValid\<close>, a function of
  the driver and so a parameter. The result is the response and the store the request
  leaves behind.
\<close>

definition placeBid ::
  "(string \<Rightarrow> bool) \<Rightarrow> faults \<Rightarrow> date \<Rightarrow> db \<Rightarrow> string \<Rightarrow> user \<Rightarrow> rat \<Rightarrow> response \<times> db" where
  "placeBid isValid throws now d auctionId usr amt =
     (if \<not> isValid auctionId
        then (Response 400 [(''message'', JMsg (Str ''Invalid auction ID''))], d)
      else (case Auction_findById_call isValid throws d auctionId of
          Inl m \<Rightarrow> (Response 500 [(''message'', JMsg m)], d)
        | Inr None \<Rightarrow> (Response 404 [(''message'', JMsg (Str ''Auction not found''))], d)
        | Inr (Some a) \<Rightarrow>
            if seller a = user_id usr
              then (Response 400 [(''message'', JMsg (Str ''You cannot bid on your own auction''))], d)
            else (case Auction_placeBid a amt now of
                Inl m \<Rightarrow> (Response 400 [(''message'', JMsg m)], d)
              | Inr a' \<Rightarrow>
                  (case Bid_create_call throws now d auctionId (user_id usr) amt of
                      Inl m \<Rightarrow> (Response 500 [(''message'', JMsg m)], d)
                    | Inr (b, d1) \<Rightarrow>
                        (case Auction_save_call throws now d1 auctionId a' of
                            Inl m \<Rightarrow> (Response 500 [(''message'', JMsg m)], d1)
                          | Inr d2 \<Rightarrow>
                              (Response 201
                                 [(''success'', JBool True),
                                  (''message'', JMsg (Str ''Bid placed successfully'')),
                                  (''bid'', JBid b),
                                  (''currentPrice'', JNum (currentPrice a')),
                                  (''totalBids'', JNat (totalBids a'))], d2))))))"

section \<open>The auction controller\<close>

text \<open>
  \<open>cancelAuction\<close>; it does not look at the id before the query, and \<open>res.json\<close> with
  no status answers 200.
\<close>

definition cancelAuction ::
  "(string \<Rightarrow> bool) \<Rightarrow> faults \<Rightarrow> date \<Rightarrow> db \<Rightarrow> string \<Rightarrow> user \<Rightarrow> response \<times> db" where
  "cancelAuction isValid throws now d aid usr =
     (case Auction_findById_call isValid throws d aid of
          Inl m \<Rightarrow> (Response 500 [(''success'', JBool False),
                      (''message'', JMsg (Str ''Failed to cancel auction'')),
                      (''error'', JMsg m)], d)
        | Inr None \<Rightarrow> (Response 404 [(''success'', JBool False),
                      (''message'', JMsg (Str ''Auction not found''))], d)
        | Inr (Some a) \<Rightarrow>
            if seller a \<noteq> user_id usr \<and> user_role usr \<noteq> Admin
              then (Response 403 [(''success'', JBool False),
                      (''message'', JMsg (Str ''You can only cancel your own auctions''))], d)
            else if totalBids a > 0
              then (Response 400 [(''success'', JBool False),
                      (''message'', JMsg (Str ''Cannot cancel auction with existing bids''))], d)
            else (case Auction_save_call throws now d aid (a\<lparr>status := Cancelled\<rparr>) of
                Inl m \<Rightarrow> (Response 500 [(''success'', JBool False),
                            (''message'', JMsg (Str ''Failed to cancel auction'')),
                            (''error'', JMsg m)], d)
              | Inr d1 \<Rightarrow>
                  (case Item_findByIdAndUpdate_call throws d1 (item a) Available of
                      Inl m \<Rightarrow> (Response 500 [(''success'', JBool False),
                                  (''message'', JMsg (Str ''Failed to cancel auction'')),
                                  (''error'', JMsg m)], d1)
                    | Inr d2 \<Rightarrow> (Response 200 [(''success'', JBool True),
                                  (''message'', JMsg (Str ''Auction cancelled successfully''))], d2))))"

section \<open>Bids and requests in sequence\<close>

text \<open>\<open>Bid.find({ auction: auctionId })\<close>, the query of \<open>getBidHistory\<close>.\<close>

definition Bid_find :: "db \<Rightarrow> objectId \<Rightarrow> Bid list" where
  "Bid_find d aid = filter (\<lambda>b. auction b = aid) (bids d)"







section \<open>The admission rules as the specification words them\<close>

text \<open>
  The reasons of section 4.1 of the specification, and its validator with the rules in
  the order given there. This definition follows the specification, not the code; it is
  what the controller is compared with.
\<close>

datatype reason = NotActive | SelfBid | InvalidAmount | TooLow | IncrementTooSmall

definition validate_spec :: "Auction \<Rightarrow> objectId \<Rightarrow> rat \<Rightarrow> date \<Rightarrow> reason option" where
  "validate_spec a bidderId amt now =
     (if \<not> (status a = Active \<and> startTime a \<le> now \<and> now \<le> endTime a) then Some NotActive
      else if \<not> bidderId \<noteq> seller a then Some SelfBid
      else if \<not> amt > 0 then Some InvalidAmount
      else if \<not> amt > currentPrice a then Some TooLow
      else if \<not> amt \<ge> currentPrice a + minIncrement a then Some IncrementTooSmall
      else None)"

text \<open>
  The rule a 400 response of the bid controller stands for, read off the one thing the
  response carries, its message.
\<close>

definition reason_of_msg :: "msg \<Rightarrow> reason option" where
  "reason_of_msg m =
     (case m of
        Str s \<Rightarrow>
          if s = ''You cannot bid on your own auction'' then Some SelfBid
          else if s = ''Auction is not active'' then Some NotActive
          else if s = ''Bid must be higher than current price'' then Some TooLow
          else None
      | Tmpl p n q \<Rightarrow>
          if p = ''Bid must be at least '' \<and> q = '' higher'' then Some IncrementTooSmall else None
      | _ \<Rightarrow> None)"

definition reason_of :: "response \<Rightarrow> reason option" where
  "reason_of r =
     (if code r \<noteq> 400 then None
      else (case map_of (body r) ''message'' of
              Some (JMsg m) \<Rightarrow> reason_of_msg m
            | _ \<Rightarrow> None))"

section \<open>Example store\<close>

text \<open>
  One auction of seller \<open>s1\<close> under the id \<open>a1\<close>, start price 10, increment 2, open from
  time 0 to time 1000, with its item; no bid yet. The same auction not yet started
  (start time 100), pending or still a draft; and with the prices 1.1 and 2.2.
\<close>

definition auction0 :: Auction where
  "auction0 = \<lparr>item = ''i1'', seller = ''s1'', startPrice = 10, currentPrice = 10,
     reservePrice = 0, minIncrement = 2, startTime = 0, endTime = 1000, status = Active,
     totalBids = 0, winner = None, finalPrice = None, updatedAt = 0\<rparr>"

definition auction_pending :: Auction where
  "auction_pending = auction0\<lparr>startTime := 100, status := Pending\<rparr>"


definition price_1_1 :: rat where
  "price_1_1 = double (11 / 10)"

definition incr_2_2 :: rat where
  "incr_2_2 = double (22 / 10)"

definition amount_3_3 :: rat where
  "amount_3_3 = double (33 / 10)"

definition auction_dec :: Auction where
  "auction_dec = auction0\<lparr>startPrice := price_1_1, currentPrice := price_1_1,
     minIncrement := incr_2_2\<rparr>"

definition item0 :: Item where
  "item0 = \<lparr>title = ''A lamp'', itemSeller = ''s1'', itemStatus = In_auction\<rparr>"

definition db_of :: "Auction \<Rightarrow> db" where
  "db_of a = \<lparr>auctions = [''a1'' \<mapsto> a], items = [''i1'' \<mapsto> item0], bids = []\<rparr>"

definition seller1 :: user where
  "seller1 = \<lparr>user_id = ''s1'', user_role = Seller\<rparr>"

definition bidder1 :: user where
  "bidder1 = \<lparr>user_id = ''u1'', user_role = User\<rparr>"

definition no_fault :: faults where
  "no_fault = (\<lambda>c. False)"

definition valid_id :: "string \<Rightarrow> bool" where
  "valid_id s \<longleftrightarrow> s \<in> {''a1'', ''a2''}"

definition save_fails :: faults where
  "save_fails = (\<lambda>c. c = Auction_save)"



section \<open>Numbers of the examples\<close>

lemma double_12: "double 12 = 12"
  by code_simp

lemma cent_value: "cent = 5764607523034235 / 576460752303423488"
  by code_simp

section \<open>Unknown and malformed auction ids\<close>

text \<open>
  C10. placeBid answers a syntactically invalid auction id with status 400 and the
  message 'Invalid auction ID', and a well-formed id under which the store holds no
  auction with status 404 and the message 'Auction not found'. In both cases the store
  is left as it was: no Bid document is created and no auction is modified.
\<close>

theorem placeBid_bad_id:
  "(\<not> isValid aid \<longrightarrow>
      placeBid isValid throws now d aid usr amt =
        (Response 400 [(''message'', JMsg (Str ''Invalid auction ID''))], d))
   \<and> (isValid aid \<and> \<not> throws Auction_findById \<and> auctions d aid = None \<longrightarrow>
      placeBid isValid throws now d aid usr amt =
        (Response 404 [(''message'', JMsg (Str ''Auction not found''))], d))"
  by (simp add: placeBid_def Auction_findById_call_def)

theorem placeBid_bad_id_witness:
  "\<not> valid_id ''zz''
   \<and> placeBid valid_id no_fault 5 (db_of auction0) ''zz'' bidder1 12 =
       (Response 400 [(''message'', JMsg (Str ''Invalid auction ID''))], db_of auction0)
   \<and> valid_id ''a2'' \<and> \<not> no_fault Auction_findById \<and> auctions (db_of auction0) ''a2'' = None
   \<and> placeBid valid_id no_fault 5 (db_of auction0) ''a2'' bidder1 12 =
       (Response 404 [(''message'', JMsg (Str ''Auction not found''))], db_of auction0)"
  using placeBid_bad_id [of valid_id "''zz''" no_fault 5 "db_of auction0" bidder1 12]
    placeBid_bad_id [of valid_id "''a2''" no_fault 5 "db_of auction0" bidder1 12]
  by (simp add: valid_id_def no_fault_def db_of_def)

section \<open>Admission of a bid\<close>

text \<open>
  The save of an admitted bid validates the whole document, and the \<open>startTime\<close>
  validator asks for a start time later than now, while the model method has just asked
  for one not later than now. So the save raises on every admitted bid and the controller
  never answers 201.
\<close>

lemma Auction_placeBid_started:
  "Auction_placeBid a amt now = Inr a' \<Longrightarrow> startTime a' = startTime a \<and> startTime a \<le> now"
  by (auto simp add: Auction_placeBid_def isActive_def split: if_splits)

lemma Auction_save_call_started:
  "startTime a \<le> now \<Longrightarrow> \<exists>m. Auction_save_call throws now d aid a = Inl m"
  by (simp add: Auction_save_call_def Auction_validate_def)

lemma placeBid_never_accepts:
  "code (fst (placeBid isValid throws now d aid usr amt)) \<noteq> 201"
proof -
  have save: "Auction_save_call throws now d1 aid a' \<noteq> Inr d2"
    if "Auction_placeBid a amt now = Inr a'" for a a' d1 d2
    using Auction_placeBid_started [OF that] Auction_save_call_started [of a' now throws d1 aid]
    by auto
  show ?thesis
    unfolding placeBid_def
    by (auto simp add: Auction_findById_call_def save split: sum.splits option.splits prod.splits)
qed

text \<open>
  C1. On the example store a bid of 12 at time 5 meets the three conditions of
  acceptance: the auction is active (status 'active', startTime 0 <= 5 <= endTime 1000),
  the bidder is not the seller, and 12 >= currentPrice 10 + minIncrement 2, with no store
  fault. The controller answers 500 with the validation error of the save ('Start time
  must be in the future'); the stored auction still has currentPrice 10 and totalBids 0,
  and the Bid document of the bid is stored.
\<close>

theorem placeBid_admitted_bid_not_accepted:
  "isActive auction0 5 \<and> user_id bidder1 \<noteq> seller auction0
   \<and> (12::rat) \<ge> currentPrice auction0 + minIncrement auction0
   \<and> fst (placeBid valid_id no_fault 5 (db_of auction0) ''a1'' bidder1 12) =
       Response 500 [(''message'', JMsg (ValidationError ''Auction''
         [(''startTime'', Some ''Start time must be in the future'')]))]
   \<and> auctions (snd (placeBid valid_id no_fault 5 (db_of auction0) ''a1'' bidder1 12)) ''a1''
       = Some auction0
   \<and> currentPrice auction0 = 10 \<and> totalBids auction0 = 0
   \<and> Bid_find (snd (placeBid valid_id no_fault 5 (db_of auction0) ''a1'' bidder1 12)) ''a1''
       = [\<lparr>auction = ''a1'', bidder = ''u1'', amount = 12, createdAt = 5\<rparr>]"
  by (simp add: placeBid_def Auction_findById_call_def Auction_placeBid_def isActive_def
      Bid_create_call_def Auction_save_call_def Auction_validate_def Bid_find_def
      double_12 cent_value valid_id_def no_fault_def db_of_def auction0_def bidder1_def Let_def)

section \<open>The order of the admission checks\<close>

text \<open>
  C3, as the code has it. On a stored auction the checks run in this order, first
  failure wins: the self-bid check of the controller, then the checks of the model
  method: not active, amount not above currentPrice, amount below the sum currentPrice +
  minIncrement as the code computes it on Numbers. No check of its own rejects a
  non-positive amount. The seller bidding on their own auction is answered with the
  self-bid rejection whether or not the auction is active.
\<close>

theorem placeBid_check_order:
  assumes "isValid aid" and "\<not> throws Auction_findById" and "auctions d aid = Some a"
  shows "reason_of (fst (placeBid isValid throws now d aid usr amt)) =
     (if seller a = user_id usr then Some SelfBid
      else if \<not> isActive a now then Some NotActive
      else if amt \<le> currentPrice a then Some TooLow
      else if amt < double (currentPrice a + minIncrement a) then Some IncrementTooSmall
      else None)"
  using assms
  by (auto simp add: placeBid_def Auction_findById_call_def Auction_placeBid_def
      Bid_create_call_def Auction_save_call_def
      reason_of_def reason_of_msg_def Let_def split: sum.splits)

text \<open>
  The witness is the auction at price 1.1 with increment 2.2 and a bid of 3.3: the
  Numbers of 1.1 and 2.2 add up to more than the Number of 3.3, and the bid is answered
  with the increment rejection.
\<close>

theorem placeBid_check_order_witness:
  "valid_id ''a1'' \<and> \<not> no_fault Auction_findById
   \<and> auctions (db_of auction_dec) ''a1'' = Some auction_dec
   \<and> seller auction_dec \<noteq> user_id bidder1 \<and> isActive auction_dec 5
   \<and> \<not> amount_3_3 \<le> currentPrice auction_dec
   \<and> amount_3_3 < double (currentPrice auction_dec + minIncrement auction_dec)
   \<and> reason_of (fst (placeBid valid_id no_fault 5 (db_of auction_dec) ''a1'' bidder1 amount_3_3))
       = Some IncrementTooSmall"
proof -
  have 1: "\<not> amount_3_3 \<le> price_1_1"
    by code_simp
  have 2: "amount_3_3 < double (price_1_1 + incr_2_2)"
    by code_simp
  have 3: "currentPrice auction_dec = price_1_1 \<and> minIncrement auction_dec = incr_2_2"
    by (simp add: auction_dec_def)
  have 4: "valid_id ''a1'' \<and> \<not> no_fault Auction_findById
      \<and> auctions (db_of auction_dec) ''a1'' = Some auction_dec
      \<and> seller auction_dec \<noteq> user_id bidder1 \<and> isActive auction_dec 5"
    by (simp add: valid_id_def no_fault_def db_of_def auction_dec_def auction0_def bidder1_def
        isActive_def)
  from 4 have "reason_of (fst (placeBid valid_id no_fault 5 (db_of auction_dec) ''a1'' bidder1 amount_3_3))
       = Some IncrementTooSmall"
    using placeBid_check_order
      [of valid_id "''a1''" no_fault "db_of auction_dec" auction_dec 5 bidder1 amount_3_3] 1 2 3
    by simp
  with 1 2 3 4 show ?thesis by simp
qed

text \<open>
  The order of the specification fails on the code at two inputs. At time 2000 the
  auction has ended; its seller bidding 12 is answered with the self-bid rejection, where
  the specification's order gives NotActive. A bid of 0 by another user at time 5 is
  answered 'Bid must be higher than current price', where the specification's order gives
  InvalidAmount.
\<close>

theorem placeBid_spec_order_counterexample:
  "reason_of (fst (placeBid valid_id no_fault 2000 (db_of auction0) ''a1'' seller1 12))
     = Some SelfBid
   \<and> validate_spec auction0 (user_id seller1) 12 2000 = Some NotActive
   \<and> reason_of (fst (placeBid valid_id no_fault 5 (db_of auction0) ''a1'' bidder1 0))
     = Some TooLow
   \<and> validate_spec auction0 (user_id bidder1) 0 5 = Some InvalidAmount"
  by (simp add: placeBid_def Auction_findById_call_def Auction_placeBid_def isActive_def
      reason_of_def reason_of_msg_def
      validate_spec_def valid_id_def no_fault_def db_of_def auction0_def seller1_def bidder1_def)

section \<open>Self-bids\<close>

text \<open>
  C6. A bid whose bidder is the seller of the stored auction is rejected whatever the
  amount: the store is left as it was (currentPrice and totalBids unchanged, no Bid
  document created), the answer is never 201, and when the auction is loaded it is 400
  'You cannot bid on your own auction'.
\<close>

theorem placeBid_self_bid:
  assumes "isValid aid" and "auctions d aid = Some a" and "user_id usr = seller a"
  shows "snd (placeBid isValid throws now d aid usr amt) = d
     \<and> code (fst (placeBid isValid throws now d aid usr amt)) \<noteq> 201
     \<and> (\<not> throws Auction_findById \<longrightarrow>
          fst (placeBid isValid throws now d aid usr amt) =
            Response 400 [(''message'', JMsg (Str ''You cannot bid on your own auction''))])"
  using assms by (simp add: placeBid_def Auction_findById_call_def)

theorem placeBid_self_bid_witness:
  "valid_id ''a1'' \<and> auctions (db_of auction0) ''a1'' = Some auction0
   \<and> user_id seller1 = seller auction0 \<and> \<not> no_fault Auction_findById
   \<and> placeBid valid_id no_fault 5 (db_of auction0) ''a1'' seller1 50 =
       (Response 400 [(''message'', JMsg (Str ''You cannot bid on your own auction''))],
        db_of auction0)"
  using placeBid_self_bid [of valid_id "''a1''" "db_of auction0" auction0 seller1 no_fault 5 50]
  by (simp add: valid_id_def no_fault_def db_of_def auction0_def seller1_def prod_eq_iff)

section \<open>Monotone prices\<close>













section \<open>The two writes of an accepted bid\<close>

text \<open>
  C4. The controller writes the Bid document (\<open>Bid.create\<close>) and then the Auction
  document (\<open>auction.save()\<close>), each on its own, and answers 500 when the second write
  raises; nothing takes the first write back. On the example store, a bid of 12 whose
  \<open>auction.save()\<close> raises is answered 500 and leaves one Bid document for the auction
  while the stored totalBids is still 0 and the stored currentPrice still 10.
\<close>

theorem placeBid_partial_commit:
  "code (fst (placeBid valid_id save_fails 5 (db_of auction0) ''a1'' bidder1 12)) = 500
   \<and> Bid_find (snd (placeBid valid_id save_fails 5 (db_of auction0) ''a1'' bidder1 12)) ''a1''
       = [\<lparr>auction = ''a1'', bidder = ''u1'', amount = 12, createdAt = 5\<rparr>]
   \<and> auctions (snd (placeBid valid_id save_fails 5 (db_of auction0) ''a1'' bidder1 12)) ''a1''
       = Some auction0
   \<and> totalBids auction0 = 0 \<and> currentPrice auction0 = 10"
  by (simp add: placeBid_def Auction_findById_call_def Auction_placeBid_def isActive_def
      Bid_create_call_def Auction_save_call_def save_fails_def Bid_find_def double_12 cent_value
      valid_id_def db_of_def auction0_def bidder1_def Let_def)

section \<open>Bids after the end time\<close>

text \<open>
  C5, as the code has it. A bid on a stored auction whose status is still 'active' but
  whose endTime is past is never accepted, and the submission leaves the store as it
  was: the auction keeps the status 'active', no transition to ended or sold is made.
  A bidder other than the seller is answered 400 'Auction is not active' when the
  auction is loaded.
\<close>

theorem placeBid_late_bid:
  assumes "isValid aid" and "auctions d aid = Some a" and "status a = Active"
    and "hasEnded a now"
  shows "snd (placeBid isValid throws now d aid usr amt) = d
     \<and> code (fst (placeBid isValid throws now d aid usr amt)) \<noteq> 201
     \<and> (\<not> throws Auction_findById \<and> user_id usr \<noteq> seller a \<longrightarrow>
          fst (placeBid isValid throws now d aid usr amt) =
            Response 400 [(''message'', JMsg (Str ''Auction is not active''))])"
  using assms
  by (auto simp add: placeBid_def Auction_findById_call_def Auction_placeBid_def isActive_def
      hasEnded_def)

theorem placeBid_late_bid_witness:
  "valid_id ''a1'' \<and> auctions (db_of auction0) ''a1'' = Some auction0
   \<and> status auction0 = Active \<and> hasEnded auction0 2000
   \<and> \<not> no_fault Auction_findById \<and> user_id bidder1 \<noteq> seller auction0
   \<and> placeBid valid_id no_fault 2000 (db_of auction0) ''a1'' bidder1 12 =
       (Response 400 [(''message'', JMsg (Str ''Auction is not active''))], db_of auction0)"
  using placeBid_late_bid [of valid_id "''a1''" "db_of auction0" auction0 2000 no_fault bidder1 12]
  by (simp add: valid_id_def no_fault_def db_of_def auction0_def bidder1_def hasEnded_def
      prod_eq_iff)

text \<open>
  The transition the specification asks of the submission is not made: after a bid at
  time 2000 on the example auction (endTime 1000, status 'active') the stored status is
  still 'active'.
\<close>

theorem placeBid_no_transition_counterexample:
  "status auction0 = Active \<and> hasEnded auction0 2000
   \<and> map_option status
       (auctions (snd (placeBid valid_id no_fault 2000 (db_of auction0) ''a1'' bidder1 12)) ''a1'')
     = Some Active"
  by (simp add: placeBid_def Auction_findById_call_def Auction_placeBid_def isActive_def
      hasEnded_def valid_id_def no_fault_def db_of_def auction0_def bidder1_def)

section \<open>What a rejection carries\<close>

text \<open>
  C8, as the code has it. Every answer of the bid controller other than the 201 of an
  accepted bid has a body of exactly one field, \<open>message\<close>; it has no reason code and no
  minimumNextBid. A bid not above currentPrice on a stored, active auction of another
  seller is answered 400 with the message 'Bid must be higher than current price' and
  nothing else.
\<close>

theorem placeBid_rejection_body:
  "(code (fst (placeBid isValid throws now d aid usr amt)) \<noteq> 201 \<longrightarrow>
      (\<exists>m. body (fst (placeBid isValid throws now d aid usr amt)) = [(''message'', JMsg m)]))
   \<and> (isValid aid \<and> \<not> throws Auction_findById \<and> auctions d aid = Some a
        \<and> seller a \<noteq> user_id usr \<and> isActive a now \<and> amt \<le> currentPrice a \<longrightarrow>
      fst (placeBid isValid throws now d aid usr amt) =
        Response 400 [(''message'', JMsg (Str ''Bid must be higher than current price''))])"
  by (auto simp add: placeBid_def Auction_findById_call_def Auction_placeBid_def
      Bid_create_call_def Auction_save_call_def
      Let_def split: sum.splits option.splits)

theorem placeBid_rejection_body_witness:
  "valid_id ''a1'' \<and> \<not> no_fault Auction_findById
   \<and> auctions (db_of auction0) ''a1'' = Some auction0
   \<and> seller auction0 \<noteq> user_id bidder1 \<and> isActive auction0 5 \<and> (10::rat) \<le> currentPrice auction0
   \<and> code (fst (placeBid valid_id no_fault 5 (db_of auction0) ''a1'' bidder1 10)) \<noteq> 201
   \<and> fst (placeBid valid_id no_fault 5 (db_of auction0) ''a1'' bidder1 10) =
        Response 400 [(''message'', JMsg (Str ''Bid must be higher than current price''))]"
  using placeBid_rejection_body
    [of valid_id no_fault 5 "db_of auction0" "''a1''" bidder1 10 auction0]
  by (simp add: valid_id_def no_fault_def db_of_def auction0_def bidder1_def isActive_def)

text \<open>
  The too-low rejection of the example (a bid of 10 at currentPrice 10) has neither a
  \<open>minimumNextBid\<close> nor a \<open>reason\<close> field.
\<close>

theorem placeBid_no_minimumNextBid_counterexample:
  "fst (placeBid valid_id no_fault 5 (db_of auction0) ''a1'' bidder1 10) =
     Response 400 [(''message'', JMsg (Str ''Bid must be higher than current price''))]
   \<and> map_of (body (fst (placeBid valid_id no_fault 5 (db_of auction0) ''a1'' bidder1 10)))
        ''minimumNextBid'' = None
   \<and> map_of (body (fst (placeBid valid_id no_fault 5 (db_of auction0) ''a1'' bidder1 10)))
        ''reason'' = None"
  by (simp add: placeBid_def Auction_findById_call_def Auction_placeBid_def isActive_def
      valid_id_def no_fault_def db_of_def auction0_def bidder1_def)

section \<open>Cancellation\<close>

lemma Auction_validate_status [simp]:
  "Auction_validate (a\<lparr>status := s\<rparr>) now = Auction_validate a now"
  by (simp add: Auction_validate_def)



lemma cancelAuction_success:
  assumes "code (fst (cancelAuction isValid throws now d aid usr)) = 200"
  obtains a where "auctions d aid = Some a"
    and "snd (cancelAuction isValid throws now d aid usr) =
      (case items d (item a) of
         None \<Rightarrow> d\<lparr>auctions := (auctions d)(aid \<mapsto> a\<lparr>status := Cancelled, updatedAt := now\<rparr>)\<rparr>
       | Some it \<Rightarrow> d\<lparr>auctions := (auctions d)(aid \<mapsto> a\<lparr>status := Cancelled, updatedAt := now\<rparr>),
                      items := (items d)(item a \<mapsto> it\<lparr>itemStatus := Available\<rparr>)\<rparr>)"
proof (cases "auctions d aid")
  case None
  with assms show ?thesis
    by (simp add: cancelAuction_def Auction_findById_call_def split: if_splits)
next
  case (Some a)
  have "snd (cancelAuction isValid throws now d aid usr) =
      (case items d (item a) of
         None \<Rightarrow> d\<lparr>auctions := (auctions d)(aid \<mapsto> a\<lparr>status := Cancelled, updatedAt := now\<rparr>)\<rparr>
       | Some it \<Rightarrow> d\<lparr>auctions := (auctions d)(aid \<mapsto> a\<lparr>status := Cancelled, updatedAt := now\<rparr>),
                      items := (items d)(item a \<mapsto> it\<lparr>itemStatus := Available\<rparr>)\<rparr>)"
    using assms Some
    by (auto simp add: cancelAuction_def Auction_findById_call_def Auction_save_call_def
        Item_findByIdAndUpdate_call_def split: if_splits option.splits)
  with Some show ?thesis by (rule that)
qed




text \<open>
  C9. When cancelAuction succeeds (answers 200), the stored auction is the one it loaded
  with the status set to 'cancelled' (and \<open>updatedAt\<close> stamped by the save hook): its
  startPrice, currentPrice, reservePrice, minIncrement, startTime, endTime and totalBids
  are as before; and the Item document the auction refers to has its status set to
  'available'.
\<close>

theorem cancelAuction_frame:
  assumes "code (fst (cancelAuction isValid throws now d aid usr)) = 200"
  shows "\<exists>a a'. auctions d aid = Some a
      \<and> auctions (snd (cancelAuction isValid throws now d aid usr)) aid = Some a'
      \<and> a' = a\<lparr>status := Cancelled, updatedAt := now\<rparr>
      \<and> status a' = Cancelled
      \<and> startPrice a' = startPrice a \<and> currentPrice a' = currentPrice a
      \<and> reservePrice a' = reservePrice a \<and> minIncrement a' = minIncrement a
      \<and> startTime a' = startTime a \<and> endTime a' = endTime a \<and> totalBids a' = totalBids a
      \<and> (\<forall>it. items d (item a) = Some it \<longrightarrow>
            items (snd (cancelAuction isValid throws now d aid usr)) (item a)
              = Some (it\<lparr>itemStatus := Available\<rparr>))"
proof -
  from assms obtain a where a: "auctions d aid = Some a"
    and d': "snd (cancelAuction isValid throws now d aid usr) =
      (case items d (item a) of
         None \<Rightarrow> d\<lparr>auctions := (auctions d)(aid \<mapsto> a\<lparr>status := Cancelled, updatedAt := now\<rparr>)\<rparr>
       | Some it \<Rightarrow> d\<lparr>auctions := (auctions d)(aid \<mapsto> a\<lparr>status := Cancelled, updatedAt := now\<rparr>),
                      items := (items d)(item a \<mapsto> it\<lparr>itemStatus := Available\<rparr>)\<rparr>)"
    by (rule cancelAuction_success)
  let ?a' = "a\<lparr>status := Cancelled, updatedAt := now\<rparr>"
  have 1: "auctions (snd (cancelAuction isValid throws now d aid usr)) aid = Some ?a'"
    unfolding d' by (simp split: option.splits)
  have 2: "\<forall>it. items d (item a) = Some it \<longrightarrow>
            items (snd (cancelAuction isValid throws now d aid usr)) (item a)
              = Some (it\<lparr>itemStatus := Available\<rparr>)"
    unfolding d' by simp
  show ?thesis
    apply (rule exI [of _ a])
    apply (rule exI [of _ ?a'])
    using a 1 2 apply simp
    done
qed

text \<open>
  The witness is the pending auction, due to start at time 100, cancelled by its seller
  at time 5.
\<close>

theorem cancelAuction_frame_witness:
  "code (fst (cancelAuction valid_id no_fault 5 (db_of auction_pending) ''a1'' seller1)) = 200
   \<and> items (db_of auction_pending) (item auction_pending) = Some item0
   \<and> itemStatus item0 = In_auction
   \<and> (\<exists>a a'. auctions (db_of auction_pending) ''a1'' = Some a
      \<and> auctions (snd (cancelAuction valid_id no_fault 5 (db_of auction_pending) ''a1'' seller1)) ''a1''
          = Some a'
      \<and> a' = a\<lparr>status := Cancelled, updatedAt := 5\<rparr>
      \<and> status a' = Cancelled
      \<and> startPrice a' = startPrice a \<and> currentPrice a' = currentPrice a
      \<and> reservePrice a' = reservePrice a \<and> minIncrement a' = minIncrement a
      \<and> startTime a' = startTime a \<and> endTime a' = endTime a \<and> totalBids a' = totalBids a
      \<and> (\<forall>it. items (db_of auction_pending) (item a) = Some it \<longrightarrow>
            items (snd (cancelAuction valid_id no_fault 5 (db_of auction_pending) ''a1'' seller1))
              (item a) = Some (it\<lparr>itemStatus := Available\<rparr>)))"
proof -
  have 1: "code (fst (cancelAuction valid_id no_fault 5 (db_of auction_pending) ''a1'' seller1)) = 200"
    by (simp add: cancelAuction_def Auction_findById_call_def Auction_save_call_def
        Item_findByIdAndUpdate_call_def Auction_validate_def cent_value
        valid_id_def no_fault_def db_of_def auction_pending_def auction0_def seller1_def)
  have 2: "items (db_of auction_pending) (item auction_pending) = Some item0
      \<and> itemStatus item0 = In_auction"
    by (simp add: db_of_def auction_pending_def auction0_def item0_def)
  from 1 2 cancelAuction_frame [OF 1] show ?thesis by blast
qed

end
